theory Spec2Isabelle
  imports Main "HOL-Library.AList"
begin

section \<open>JavaScript values\<close>

text \<open>
  The integration (\<^verbatim>\<open>src/index.ts\<close>) handles plain option objects that are
  forwarded to the browser driver. A JavaScript number is either \<open>NaN\<close> or, for the
  pixel counts, timeouts and port numbers that occur here, an integer. An object is
  an association list in insertion order; a well-formed object binds every key once.
\<close>

datatype jsnum = NaN | Num int

datatype jsval =
    JStr string
  | JNum jsnum
  | JBool bool
  | JObj "(string \<times> jsval) list"

type_synonym obj = "(string \<times> jsval) list"

definition wf_obj :: "obj \<Rightarrow> bool" where
  "wf_obj ob = distinct (map fst ob)"

definition lookup :: "obj \<Rightarrow> string \<Rightarrow> jsval option" where
  "lookup ob k = map_of ob k"

text \<open>
  Object spread \<^verbatim>\<open>{...target, ...source}\<close>: every own property of the source is
  assigned to the target in the source's order. Assigning an existing key replaces the
  value in place, a new key is appended. Spreading \<^verbatim>\<open>undefined\<close> copies nothing.
  The keys of the option objects are names; integer-like keys, which JavaScript
  enumerates first and in ascending order, are outside the model, and no property below
  depends on the order of keys beyond the examples it spells out.
\<close>

definition spread :: "obj \<Rightarrow> obj \<Rightarrow> obj" where
  "spread source target = fold (\<lambda>(k, v). AList.update k v) source target"

definition spread_opt :: "obj option \<Rightarrow> obj \<Rightarrow> obj" where
  "spread_opt source target = (case source of None \<Rightarrow> target | Some s \<Rightarrow> spread s target)"

text \<open>
  Reading an optional object: \<^verbatim>\<open>undefined\<close> has no keys, and it counts as
  well-formed.
\<close>

fun lookup_opt :: "obj option \<Rightarrow> string \<Rightarrow> jsval option" where
  "lookup_opt None k = None"
| "lookup_opt (Some ob) k = lookup ob k"

fun has_key :: "obj option \<Rightarrow> string \<Rightarrow> bool" where
  "has_key None k = False"
| "has_key (Some ob) k = (k \<in> fst ` set ob)"

fun wf_opt :: "obj option \<Rightarrow> bool" where
  "wf_opt None = True"
| "wf_opt (Some ob) = wf_obj ob"

text \<open>
  Truthiness of an optional number: \<^verbatim>\<open>undefined\<close>, \<open>0\<close> and \<open>NaN\<close> are falsy.
  \<open>lor a b\<close> is \<^verbatim>\<open>a || b\<close> for two optional numbers, \<open>lor_num a n\<close> is
  \<^verbatim>\<open>a || n\<close> where the right operand is a number literal.
\<close>

fun truthy :: "jsnum option \<Rightarrow> bool" where
  "truthy None = False"
| "truthy (Some NaN) = False"
| "truthy (Some (Num n)) = (n \<noteq> 0)"

definition lor :: "jsnum option \<Rightarrow> jsnum option \<Rightarrow> jsnum option" where
  "lor a b = (if truthy a then a else b)"

fun lor_num :: "jsnum option \<Rightarrow> jsnum \<Rightarrow> jsnum" where
  "lor_num None n = n"
| "lor_num (Some a) n = (if truthy (Some a) then a else n)"

text \<open>
  Nullish coalescing \<^verbatim>\<open>a ?? b\<close> tells \<^verbatim>\<open>undefined\<close> and \<^verbatim>\<open>null\<close> from every
  other value.
\<close>

datatype 'a nullable = Undefined | Null | Defined 'a

fun nullish_or :: "'a nullable \<Rightarrow> 'a \<Rightarrow> 'a" where
  "nullish_or Undefined d = d"
| "nullish_or Null d = d"
| "nullish_or (Defined a) d = a"

subsection \<open>Strings\<close>

definition startsWith :: "string \<Rightarrow> string \<Rightarrow> bool" where
  "startsWith s p = (take (length p) s = p)"

definition endsWith :: "string \<Rightarrow> string \<Rightarrow> bool" where
  "endsWith s p = (take (length p) (rev s) = rev p)"

definition digit :: "nat \<Rightarrow> char" where
  "digit d = ''0123456789'' ! d"

fun string_of_nat :: "nat \<Rightarrow> string" where
  "string_of_nat n = (if n < 10 then [digit n] else string_of_nat (n div 10) @ [digit (n mod 10)])"

declare string_of_nat.simps [simp del]

definition string_of_int :: "int \<Rightarrow> string" where
  "string_of_int i = (if i < 0 then ''-'' @ string_of_nat (nat (- i)) else string_of_nat (nat i))"

text \<open>
  A number inside a template literal: the decimal digits, which is what JavaScript
  prints for an integer below \<^verbatim>\<open>1e21\<close>.
\<close>

fun string_of_num :: "jsnum \<Rightarrow> string" where
  "string_of_num NaN = ''NaN''"
| "string_of_num (Num i) = string_of_int i"

section \<open>Configuration\<close>

text \<open>
  \<^verbatim>\<open>ScreenshotConfig\<close> (declared in \<^verbatim>\<open>types.ts\<close>, read from its uses in
  \<^verbatim>\<open>index.ts\<close>): the per-page capture specification. Every field but the output
  path is optional.
\<close>

record ScreenshotConfig =
  width :: "jsnum option"
  height :: "jsnum option"
  outputPath :: string
  gotoOptions :: "obj option"
  screenshotOptions :: "obj option"

text \<open>The shared defaults: the same optional fields, without an output path.\<close>

record Defaults =
  d_width :: "jsnum option"
  d_height :: "jsnum option"
  d_gotoOptions :: "obj option"
  d_screenshotOptions :: "obj option"

text \<open>
  The value of a route in \<^verbatim>\<open>pages\<close>. The loop of the build-done handler iterates it
  with \<^verbatim>\<open>for ... of\<close>, so the model tells an array of specifications from a single
  specification object, which the module's own usage example passes.
\<close>

datatype PageValue =
    SpecArray "ScreenshotConfig list"
  | SpecObject ScreenshotConfig

record SnapshotIntegrationConfig =
  c_pages :: "(string \<times> PageValue) list"
  c_defaults :: "Defaults option"
  c_launchOptions :: "obj option"
  c_port :: "jsnum nullable"

text \<open>The resolved options that the closures of \<^verbatim>\<open>snapshot\<close> capture.\<close>

record Snapshot =
  pages :: "(string \<times> PageValue) list"
  defaults :: Defaults
  launchOptions :: obj
  port :: jsnum

definition no_defaults :: Defaults where
  "no_defaults = \<lparr> d_width = None, d_height = None, d_gotoOptions = None,
     d_screenshotOptions = None \<rparr>"

definition snapshot :: "SnapshotIntegrationConfig \<Rightarrow> Snapshot" where
  "snapshot config =
     \<lparr> pages = c_pages config,
       defaults = (case c_defaults config of None \<Rightarrow> no_defaults | Some d \<Rightarrow> d),
       launchOptions = spread_opt (c_launchOptions config) [(''headless'', JBool True)],
       port = nullish_or (c_port config) (Num 4322) \<rparr>"

section \<open>Errors\<close>

text \<open>
  Every \<^verbatim>\<open>throw\<close> and every rejected promise is an \<open>Inl\<close> value: the format
  resolver rejecting a path, the runtime's \<^verbatim>\<open>TypeError\<close> for iterating a value that
  is not iterable, and a collaborator call that fails (named by the call).
\<close>

datatype action =
    Preview string jsnum
  | Launch obj
  | Mkdir string
  | NewPage
  | SetViewport jsnum jsnum
  | Goto string obj
  | Screenshot obj
  | PageClose
  | BrowserClose
  | ServerStop

datatype error =
    UnsupportedFormat string
  | TypeError string
  | Rejected action

section \<open>Format resolver\<close>

text \<open>
  Modelled from the spec: \<^verbatim>\<open>getFormat\<close> lives in \<^verbatim>\<open>utils.ts\<close>, which is not among
  the sources. The specification says that the format is determined purely by the file
  extension, that paths ending in \<^verbatim>\<open>.png\<close>, \<^verbatim>\<open>.jpg\<close>/\<^verbatim>\<open>.jpeg\<close> and \<^verbatim>\<open>.webp\<close> give
  the matching format, and that an unrecognized or missing extension fails.
\<close>

definition getFormat :: "string \<Rightarrow> error + string" where
  "getFormat path =
     (if endsWith path ''.png'' then Inr ''png''
      else if endsWith path ''.jpg'' \<or> endsWith path ''.jpeg'' then Inr ''jpeg''
      else if endsWith path ''.webp'' then Inr ''webp''
      else Inl (UnsupportedFormat path))"

section \<open>Config resolver\<close>

record ResolvedConfig =
  r_width :: jsnum
  r_height :: jsnum
  goToOptions :: obj
  r_outputPath :: string
  r_screenshotOptions :: obj

text \<open>
  \<^verbatim>\<open>resolveScreenshotConfig\<close>. The only failure is the one of \<^verbatim>\<open>getFormat\<close>, raised
  while the object literal is built.
\<close>

definition resolveScreenshotConfig :: "Defaults \<Rightarrow> ScreenshotConfig \<Rightarrow> error + ResolvedConfig" where
  "resolveScreenshotConfig dflt pageConfig =
     (let out = outputPath pageConfig in
      case getFormat out of
        Inl e \<Rightarrow> Inl e
      | Inr fmt \<Rightarrow>
          Inr \<lparr> r_width = lor_num (lor (width pageConfig) (d_width dflt)) (Num 1200),
                r_height = lor_num (lor (height pageConfig) (d_height dflt)) (Num 630),
                goToOptions =
                  spread_opt (gotoOptions pageConfig)
                    (spread_opt (d_gotoOptions dflt)
                      [(''waitUntil'', JStr ''networkidle2'')]),
                r_outputPath = out,
                r_screenshotOptions =
                  spread_opt (screenshotOptions pageConfig)
                    (spread_opt (d_screenshotOptions dflt)
                      [(''path'', JStr out), (''type'', JStr fmt), (''fullPage'', JBool False)]) \<rparr>)"

section \<open>Effects\<close>

text \<open>
  The build-done handler talks to the preview server, the browser driver, the file system
  and the logger. A run is a function on the trace of events so far; it returns the
  trace extended by what it did, with the value or the error it ended in. An environment
  decides, from the trace so far and the call, whether a collaborator call rejects.
  The logger only records; it does not fail.
\<close>

datatype level = Debug | Info

datatype event =
    Done action
  | Failed action
  | Log level string

type_synonym trace = "event list"

type_synonym environment = "trace \<Rightarrow> action \<Rightarrow> bool"

type_synonym 'a io = "trace \<Rightarrow> (error + 'a) \<times> trace"

definition ret :: "'a \<Rightarrow> 'a io" where
  "ret x t = (Inr x, t)"

definition throw :: "error \<Rightarrow> 'a io" where
  "throw e t = (Inl e, t)"

text \<open>\<open>andThen m k\<close> is \<^verbatim>\<open>await m; k\<close>: an error of \<open>m\<close> skips \<open>k\<close>.\<close>

definition andThen :: "unit io \<Rightarrow> 'a io \<Rightarrow> 'a io" where
  "andThen m k t = (case m t of (Inl e, t') \<Rightarrow> (Inl e, t') | (Inr u, t') \<Rightarrow> k t')"

text \<open>
  \<^verbatim>\<open>try { body } finally { fin }\<close>: the finalizer runs on every exit of the body. An
  error of the finalizer replaces the body's completion, otherwise the body's result or
  error stands.
\<close>

definition tryFinally :: "'a io \<Rightarrow> unit io \<Rightarrow> 'a io" where
  "tryFinally body fin t =
     (case body t of (r, t') \<Rightarrow>
        (case fin t' of (Inl e, t'') \<Rightarrow> (Inl e, t'') | (Inr u, t'') \<Rightarrow> (r, t'')))"

definition call :: "environment \<Rightarrow> action \<Rightarrow> unit io" where
  "call fails a t =
     (if fails t a then (Inl (Rejected a), t @ [Failed a]) else (Inr (), t @ [Done a]))"

definition logger :: "level \<Rightarrow> string \<Rightarrow> unit io" where
  "logger lv msg t = (Inr (), t @ [Log lv msg])"

text \<open>
  The functions of \<^verbatim>\<open>node:path\<close> that the handler uses are parameters of the model.
\<close>

record NodePath =
  resolve :: "string \<Rightarrow> string \<Rightarrow> string"
  dirname :: "string \<Rightarrow> string"
  relative :: "string \<Rightarrow> string \<Rightarrow> string"

section \<open>Capture orchestrator and build-done handler\<close>

definition normalizedPagePath :: "string \<Rightarrow> string" where
  "normalizedPagePath pagePath = (if startsWith pagePath ''/'' then pagePath else ''/'' @ pagePath)"

definition pageUrl :: "jsnum \<Rightarrow> string \<Rightarrow> string" where
  "pageUrl prt pagePath = ''http://localhost:'' @ string_of_num prt @ normalizedPagePath pagePath"

text \<open>
  The informational message. The characters before \<^verbatim>\<open>Screenshot\<close> and between the
  two paths are written as the UTF-8 bytes that the template literal of the source file
  holds.
\<close>

definition generatedMessage :: "string \<Rightarrow> string \<Rightarrow> string" where
  "generatedMessage npath relativePath =
     [CHR 0xC3, CHR 0xB0, CHR 0xC5, CHR 0xB8, CHR 0xE2, CHR 0x80, CHR 0x9C, CHR 0xC2, CHR 0xB8] @
     '' Screenshot generated: '' @ npath @ '' '' @
     [CHR 0xC3, CHR 0xA2, CHR 0xE2, CHR 0x80, CHR 0xA0, CHR 0xE2, CHR 0x80, CHR 0x99] @
     '' '' @ relativePath"

text \<open>The body of the inner loop, for one capture specification.\<close>

definition capture :: "environment \<Rightarrow> NodePath \<Rightarrow> Snapshot \<Rightarrow> string \<Rightarrow> string \<Rightarrow> ScreenshotConfig \<Rightarrow> unit io" where
  "capture fails np st rootDir pagePath screenshotConfig =
     (case resolveScreenshotConfig (defaults st) screenshotConfig of
        Inl e \<Rightarrow> throw e
      | Inr rc \<Rightarrow>
          (let absoluteOutputPath = resolve np rootDir (r_outputPath rc) in
           andThen (call fails (Mkdir (dirname np absoluteOutputPath)))
          (andThen (call fails NewPage)
          (andThen (call fails (SetViewport (r_width rc) (r_height rc)))
          (andThen (call fails (Goto (pageUrl (port st) pagePath) (goToOptions rc)))
          (andThen (call fails (Screenshot (r_screenshotOptions rc)))
          (andThen (call fails PageClose)
          (logger Info
             (generatedMessage (normalizedPagePath pagePath)
                (relative np rootDir absoluteOutputPath))))))))))"

fun captureEach :: "environment \<Rightarrow> NodePath \<Rightarrow> Snapshot \<Rightarrow> string \<Rightarrow> string \<Rightarrow> ScreenshotConfig list \<Rightarrow> unit io" where
  "captureEach fails np st rootDir pagePath [] = ret ()"
| "captureEach fails np st rootDir pagePath (c # cs) =
     andThen (capture fails np st rootDir pagePath c)
       (captureEach fails np st rootDir pagePath cs)"

text \<open>
  \<^verbatim>\<open>for (const screenshotConfig of screenshotConfigs)\<close>: an array is iterated in
  order; a plain object has no iterator, and the runtime throws a \<^verbatim>\<open>TypeError\<close>.
\<close>

fun captureConfigs :: "environment \<Rightarrow> NodePath \<Rightarrow> Snapshot \<Rightarrow> string \<Rightarrow> string \<Rightarrow> PageValue \<Rightarrow> unit io" where
  "captureConfigs fails np st rootDir pagePath (SpecArray cs) =
     captureEach fails np st rootDir pagePath cs"
| "captureConfigs fails np st rootDir pagePath (SpecObject c) =
     throw (TypeError ''screenshotConfigs is not iterable'')"

fun capturePages :: "environment \<Rightarrow> NodePath \<Rightarrow> Snapshot \<Rightarrow> string \<Rightarrow> (string \<times> PageValue) list \<Rightarrow> unit io" where
  "capturePages fails np st rootDir [] = ret ()"
| "capturePages fails np st rootDir ((pagePath, screenshotConfigs) # rest) =
     andThen (captureConfigs fails np st rootDir pagePath screenshotConfigs)
       (capturePages fails np st rootDir rest)"

text \<open>
  \<^verbatim>\<open>handleBuildDone\<close>, run after the config-done handler has stored the root directory
  \<open>rootDir\<close>. The list \<open>pages st\<close> is the list of entries that
  \<^verbatim>\<open>Object.entries(pages)\<close> returns, in its order.
\<close>

definition handleBuildDone :: "environment \<Rightarrow> NodePath \<Rightarrow> Snapshot \<Rightarrow> string \<Rightarrow> unit io" where
  "handleBuildDone fails np st rootDir =
     (let pageEntries = pages st in
      if length pageEntries = 0
      then logger Debug ''No pages configured for screenshot generation. Skipping...''
      else
        andThen (call fails (Preview rootDir (port st)))
       (andThen (call fails (Launch (launchOptions st)))
       (tryFinally (capturePages fails np st rootDir pageEntries)
          (andThen (call fails BrowserClose) (call fails ServerStop)))))"

subsection \<open>Environments\<close>

text \<open>Every collaborator call succeeds.\<close>

definition never_fails :: environment where
  "never_fails t a = False"

text \<open>The browser launch is rejected, every other call succeeds.\<close>

fun launch_fails :: environment where
  "launch_fails t (Launch opts) = True"
| "launch_fails t a = False"

text \<open>Closing the browser is rejected, every other call succeeds.\<close>

fun browser_close_fails :: environment where
  "browser_close_fails t BrowserClose = True"
| "browser_close_fails t a = False"

text \<open>
  The second \<^verbatim>\<open>page.screenshot\<close> call of a run is rejected, every other call succeeds.
\<close>

fun screenshots_done :: "trace \<Rightarrow> nat" where
  "screenshots_done [] = 0"
| "screenshots_done (Done (Screenshot opts) # t) = Suc (screenshots_done t)"
| "screenshots_done (e # t) = screenshots_done t"

fun second_screenshot_fails :: environment where
  "second_screenshot_fails t (Screenshot opts) = (screenshots_done t = 1)"
| "second_screenshot_fails t a = False"

section \<open>Properties of the object spread\<close>

lemma spread_Nil: "spread [] t = t"
  by (simp add: spread_def)

lemma spread_Cons: "spread ((k, v) # s) t = spread s (AList.update k v t)"
  by (simp add: spread_def)

text \<open>A key that the source does not bind keeps the target's value.\<close>

lemma lookup_spread_absent: "k \<notin> fst ` set s \<Longrightarrow> lookup (spread s t) k = lookup t k"
proof (induction s arbitrary: t)
  case Nil
  then show ?case by (simp add: spread_Nil)
next
  case (Cons a s)
  obtain k' v' where a: "a = (k', v')" by (cases a)
  from Cons.prems a have "k \<noteq> k'" and "k \<notin> fst ` set s" by auto
  then show ?case
    using Cons.IH [of "AList.update k' v' t"]
    by (simp add: a spread_Cons lookup_def update_conv')
qed

text \<open>The source's binding of a key wins over the target's.\<close>

lemma lookup_spread_wf:
  "wf_obj s \<Longrightarrow>
   lookup (spread s t) k = (case lookup s k of Some v \<Rightarrow> Some v | None \<Rightarrow> lookup t k)"
proof (induction s arbitrary: t)
  case Nil
  then show ?case by (simp add: spread_Nil lookup_def)
next
  case (Cons a s)
  obtain k' v' where a: "a = (k', v')" by (cases a)
  from Cons.prems a have fresh: "k' \<notin> fst ` set s" and wf: "wf_obj s"
    by (auto simp: wf_obj_def)
  show ?case
  proof (cases "k = k'")
    case True
    with fresh have "lookup (spread s (AList.update k' v' t)) k = lookup (AList.update k' v' t) k"
      by (simp add: lookup_spread_absent)
    with True show ?thesis
      by (simp add: a spread_Cons lookup_def update_conv')
  next
    case False
    with Cons.IH [OF wf, of "AList.update k' v' t"] show ?thesis
      unfolding lookup_def by (simp add: a spread_Cons update_conv' split: option.splits)
  qed
qed

lemma lookup_spread_opt_absent:
  "\<not> has_key s k \<Longrightarrow> lookup (spread_opt s t) k = lookup t k"
  by (cases s) (simp_all add: spread_opt_def lookup_spread_absent)

lemma lookup_spread_opt_wf:
  "wf_opt s \<Longrightarrow>
   lookup (spread_opt s t) k = (case lookup_opt s k of Some v \<Rightarrow> Some v | None \<Rightarrow> lookup t k)"
  by (cases s) (simp_all add: spread_opt_def lookup_spread_wf)

text \<open>Spreading keeps a well-formed target well-formed.\<close>

lemma wf_obj_spread: "wf_obj t \<Longrightarrow> wf_obj (spread s t)"
proof (induction s arbitrary: t)
  case Nil
  then show ?case by (simp add: spread_Nil)
next
  case (Cons a s)
  obtain k v where a: "a = (k, v)" by (cases a)
  from Cons.prems have "wf_obj (AList.update k v t)"
    by (simp add: wf_obj_def distinct_update)
  then show ?case by (simp add: a spread_Cons Cons.IH)
qed

lemma wf_obj_spread_opt: "wf_obj t \<Longrightarrow> wf_obj (spread_opt s t)"
  by (cases s) (simp_all add: spread_opt_def wf_obj_spread)

section \<open>Properties of the config resolver\<close>

text \<open>
  The resolver returns whenever the format resolver accepts the output path, and then
  every field of its result is determined.
\<close>

lemma resolve_returns:
  "getFormat (outputPath p) = Inr fmt \<Longrightarrow>
   resolveScreenshotConfig d p =
     Inr \<lparr> r_width = lor_num (lor (width p) (d_width d)) (Num 1200),
           r_height = lor_num (lor (height p) (d_height d)) (Num 630),
           goToOptions = spread_opt (gotoOptions p)
             (spread_opt (d_gotoOptions d) [(''waitUntil'', JStr ''networkidle2'')]),
           r_outputPath = outputPath p,
           r_screenshotOptions = spread_opt (screenshotOptions p)
             (spread_opt (d_screenshotOptions d)
               [(''path'', JStr (outputPath p)), (''type'', JStr fmt),
                (''fullPage'', JBool False)]) \<rparr>"
  by (simp add: resolveScreenshotConfig_def Let_def)

lemma resolve_fails:
  "getFormat (outputPath p) = Inl e \<Longrightarrow> resolveScreenshotConfig d p = Inl e"
  by (simp add: resolveScreenshotConfig_def Let_def)

lemma truthy_cases: "truthy a \<longleftrightarrow> (\<exists>n. a = Some (Num n) \<and> n \<noteq> 0)"
  by (cases a rule: truthy.cases) auto

lemma lor_num_lor:
  "lor_num (lor a b) n = (if truthy a then the a else if truthy b then the b else n)"
  by (cases a; cases b) (auto simp: lor_def)

text \<open>
  C1. For the defaults \<^verbatim>\<open>{width: 1920, gotoOptions: {timeout: 5000}}\<close> and the capture
  specification \<^verbatim>\<open>{height: 800, outputPath: "out/a.png"}\<close> the config resolver returns
  exactly the width 1920, the height 800, the navigation options
  \<^verbatim>\<open>{waitUntil: "networkidle2", timeout: 5000}\<close>, the output path and the encoder
  options \<^verbatim>\<open>{path: "out/a.png", type: "png", fullPage: false}\<close>. The defaults go
  through \<^verbatim>\<open>snapshot\<close>, as in the source.
\<close>

theorem resolve_example:
  "resolveScreenshotConfig
     (defaults (snapshot \<lparr> c_pages = ps,
        c_defaults = Some \<lparr> d_width = Some (Num 1920), d_height = None,
          d_gotoOptions = Some [(''timeout'', JNum (Num 5000))], d_screenshotOptions = None \<rparr>,
        c_launchOptions = lo, c_port = pt \<rparr>))
     \<lparr> width = None, height = Some (Num 800), outputPath = ''out/a.png'',
       gotoOptions = None, screenshotOptions = None \<rparr>
   = Inr \<lparr> r_width = Num 1920, r_height = Num 800,
       goToOptions = [(''waitUntil'', JStr ''networkidle2''), (''timeout'', JNum (Num 5000))],
       r_outputPath = ''out/a.png'',
       r_screenshotOptions =
         [(''path'', JStr ''out/a.png''), (''type'', JStr ''png''), (''fullPage'', JBool False)] \<rparr>"
  by (simp add: snapshot_def resolveScreenshotConfig_def getFormat_def endsWith_def
      spread_opt_def spread_def lor_def Let_def)

text \<open>
  C2. Whenever the resolver returns, the resolved width is the specification's width if
  that is truthy, else the defaults' width if that is truthy, else 1200, and likewise the
  height with the fallback 630. A width or height of 0 is falsy, so the resolved value is
  never 0.
\<close>

theorem resolve_width_height:
  assumes "getFormat (outputPath p) = Inr fmt"
  shows "\<exists>r. resolveScreenshotConfig d p = Inr r
       \<and> (truthy (width p) \<longrightarrow> Some (r_width r) = width p)
       \<and> (\<not> truthy (width p) \<and> truthy (d_width d) \<longrightarrow> Some (r_width r) = d_width d)
       \<and> (\<not> truthy (width p) \<and> \<not> truthy (d_width d) \<longrightarrow> r_width r = Num 1200)
       \<and> (truthy (height p) \<longrightarrow> Some (r_height r) = height p)
       \<and> (\<not> truthy (height p) \<and> truthy (d_height d) \<longrightarrow> Some (r_height r) = d_height d)
       \<and> (\<not> truthy (height p) \<and> \<not> truthy (d_height d) \<longrightarrow> r_height r = Num 630)
       \<and> r_width r \<noteq> Num 0 \<and> r_height r \<noteq> Num 0"
  unfolding resolve_returns [OF assms]
  by (auto simp: lor_num_lor truthy_cases)

theorem resolve_width_height_witness:
  "getFormat ''out/a.png'' = Inr ''png''
   \<and> (\<exists>r. resolveScreenshotConfig
          \<lparr> d_width = Some (Num 1920), d_height = Some (Num 0), d_gotoOptions = None,
            d_screenshotOptions = None \<rparr>
          \<lparr> width = Some (Num 0), height = Some (Num 0), outputPath = ''out/a.png'',
            gotoOptions = None, screenshotOptions = None \<rparr> = Inr r
        \<and> r_width r = Num 1920 \<and> r_height r = Num 630)"
proof -
  have h: "getFormat (outputPath \<lparr> width = Some (Num 0), height = Some (Num 0),
      outputPath = ''out/a.png'', gotoOptions = None, screenshotOptions = None \<rparr>) = Inr ''png''"
    by (simp add: getFormat_def endsWith_def)
  from resolve_width_height [OF h, of "\<lparr> d_width = Some (Num 1920), d_height = Some (Num 0),
      d_gotoOptions = None, d_screenshotOptions = None \<rparr>"] h
  show ?thesis by auto
qed

text \<open>
  C7. Whenever the resolver returns, the resolved navigation options are the shallow
  merge of the fallback \<^verbatim>\<open>{waitUntil: "networkidle2"}\<close>, then the defaults'
  \<^verbatim>\<open>gotoOptions\<close>, then the specification's \<^verbatim>\<open>gotoOptions\<close>: key by key, the
  specification's value wins over the defaults' value, which wins over the fallback. The
  two option objects are well-formed objects (every key bound once).
\<close>

theorem goto_options_layers:
  assumes "getFormat (outputPath p) = Inr fmt"
    and "wf_opt (d_gotoOptions d)" and "wf_opt (gotoOptions p)"
  shows "\<exists>r. resolveScreenshotConfig d p = Inr r
       \<and> wf_obj (goToOptions r)
       \<and> (\<forall>k. lookup (goToOptions r) k =
            (case lookup_opt (gotoOptions p) k of
               Some v \<Rightarrow> Some v
             | None \<Rightarrow>
                 (case lookup_opt (d_gotoOptions d) k of
                    Some v \<Rightarrow> Some v
                  | None \<Rightarrow> lookup [(''waitUntil'', JStr ''networkidle2'')] k)))"
proof -
  let ?g = "spread_opt (gotoOptions p)
              (spread_opt (d_gotoOptions d) [(''waitUntil'', JStr ''networkidle2'')])"
  have "wf_obj ?g"
    by (intro wf_obj_spread_opt) (simp add: wf_obj_def)
  moreover have "lookup ?g k =
            (case lookup_opt (gotoOptions p) k of
               Some v \<Rightarrow> Some v
             | None \<Rightarrow>
                 (case lookup_opt (d_gotoOptions d) k of
                    Some v \<Rightarrow> Some v
                  | None \<Rightarrow> lookup [(''waitUntil'', JStr ''networkidle2'')] k))" for k
    using assms(2,3) by (simp add: lookup_spread_opt_wf split: option.splits)
  ultimately show ?thesis
    unfolding resolve_returns [OF assms(1)] by simp
qed

theorem goto_options_layers_witness:
  "getFormat ''out/a.png'' = Inr ''png''
   \<and> wf_opt (Some [(''timeout'', JNum (Num 5000)), (''waitUntil'', JStr ''load'')])
   \<and> wf_opt (Some [(''waitUntil'', JStr ''domcontentloaded'')])
   \<and> (\<exists>r. resolveScreenshotConfig
          \<lparr> d_width = None, d_height = None,
            d_gotoOptions = Some [(''timeout'', JNum (Num 5000)), (''waitUntil'', JStr ''load'')],
            d_screenshotOptions = None \<rparr>
          \<lparr> width = None, height = None, outputPath = ''out/a.png'',
            gotoOptions = Some [(''waitUntil'', JStr ''domcontentloaded'')],
            screenshotOptions = None \<rparr> = Inr r
        \<and> lookup (goToOptions r) ''waitUntil'' = Some (JStr ''domcontentloaded'')
        \<and> lookup (goToOptions r) ''timeout'' = Some (JNum (Num 5000))
        \<and> lookup (goToOptions r) ''referer'' = None)"
proof -
  let ?d = "\<lparr> d_width = None, d_height = None,
            d_gotoOptions = Some [(''timeout'', JNum (Num 5000)), (''waitUntil'', JStr ''load'')],
            d_screenshotOptions = None \<rparr>"
  let ?p = "\<lparr> width = None, height = None, outputPath = ''out/a.png'',
            gotoOptions = Some [(''waitUntil'', JStr ''domcontentloaded'')],
            screenshotOptions = None \<rparr>"
  have h1: "getFormat (outputPath ?p) = Inr ''png''"
    by (simp add: getFormat_def endsWith_def)
  have h2: "wf_opt (d_gotoOptions ?d)" by (simp add: wf_obj_def)
  have h3: "wf_opt (gotoOptions ?p)" by (simp add: wf_obj_def)
  from goto_options_layers [OF h1 h2 h3] obtain r where
    r: "resolveScreenshotConfig ?d ?p = Inr r"
    and l: "\<And>k. lookup (goToOptions r) k =
            (case lookup_opt (gotoOptions ?p) k of
               Some v \<Rightarrow> Some v
             | None \<Rightarrow>
                 (case lookup_opt (d_gotoOptions ?d) k of
                    Some v \<Rightarrow> Some v
                  | None \<Rightarrow> lookup [(''waitUntil'', JStr ''networkidle2'')] k))"
    by blast
  have "lookup (goToOptions r) ''waitUntil'' = Some (JStr ''domcontentloaded'')"
    and "lookup (goToOptions r) ''timeout'' = Some (JNum (Num 5000))"
    and "lookup (goToOptions r) ''referer'' = None"
    unfolding l by (simp_all add: lookup_def)
  with r h1 h2 h3 show ?thesis by auto
qed

text \<open>
  C3, as stated, fails: the seeded \<^verbatim>\<open>path\<close> and \<^verbatim>\<open>type\<close> come first in the object
  literal and the two spreads follow, so a \<^verbatim>\<open>path\<close> or \<^verbatim>\<open>type\<close> key supplied in
  \<^verbatim>\<open>screenshotOptions\<close> replaces the computed value.
\<close>

theorem screenshot_options_override:
  "resolveScreenshotConfig no_defaults
     \<lparr> width = None, height = None, outputPath = ''out/a.png'', gotoOptions = None,
       screenshotOptions = Some [(''path'', JStr ''elsewhere.jpg''), (''type'', JStr ''jpeg'')] \<rparr>
   = Inr \<lparr> r_width = Num 1200, r_height = Num 630,
       goToOptions = [(''waitUntil'', JStr ''networkidle2'')],
       r_outputPath = ''out/a.png'',
       r_screenshotOptions =
         [(''path'', JStr ''elsewhere.jpg''), (''type'', JStr ''jpeg''),
          (''fullPage'', JBool False)] \<rparr>
   \<and> getFormat ''out/a.png'' = Inr ''png''
   \<and> lookup [(''path'', JStr ''elsewhere.jpg''), (''type'', JStr ''jpeg''),
          (''fullPage'', JBool False)] ''path'' \<noteq> Some (JStr ''out/a.png'')
   \<and> lookup [(''path'', JStr ''elsewhere.jpg''), (''type'', JStr ''jpeg''),
          (''fullPage'', JBool False)] ''type'' \<noteq> Some (JStr ''png'')"
  by (simp add: resolveScreenshotConfig_def getFormat_def endsWith_def no_defaults_def
      spread_opt_def spread_def lor_def Let_def lookup_def)

text \<open>
  C3, amended. When neither the defaults' nor the specification's
  \<^verbatim>\<open>screenshotOptions\<close> has a \<^verbatim>\<open>path\<close> or a \<^verbatim>\<open>type\<close> key, as their declared type
  requires, the resolved encoder options have the specification's output path as
  \<^verbatim>\<open>path\<close> and the format derived from it as \<^verbatim>\<open>type\<close>.
\<close>

theorem screenshot_path_type_when_absent:
  assumes "getFormat (outputPath p) = Inr fmt"
    and "\<not> has_key (d_screenshotOptions d) ''path''"
    and "\<not> has_key (d_screenshotOptions d) ''type''"
    and "\<not> has_key (screenshotOptions p) ''path''"
    and "\<not> has_key (screenshotOptions p) ''type''"
  shows "\<exists>r. resolveScreenshotConfig d p = Inr r
       \<and> lookup (r_screenshotOptions r) ''path'' = Some (JStr (outputPath p))
       \<and> lookup (r_screenshotOptions r) ''type'' = Some (JStr fmt)"
  unfolding resolve_returns [OF assms(1)]
  using assms(2-5) by (simp add: lookup_spread_opt_absent) (simp add: lookup_def)

theorem screenshot_path_type_when_absent_witness:
  "getFormat ''shots/home.webp'' = Inr ''webp''
   \<and> \<not> has_key (Some [(''fullPage'', JBool True)]) ''path''
   \<and> \<not> has_key (Some [(''fullPage'', JBool True)]) ''type''
   \<and> \<not> has_key (Some [(''quality'', JNum (Num 80))]) ''path''
   \<and> \<not> has_key (Some [(''quality'', JNum (Num 80))]) ''type''
   \<and> (\<exists>r. resolveScreenshotConfig
          \<lparr> d_width = None, d_height = None, d_gotoOptions = None,
            d_screenshotOptions = Some [(''fullPage'', JBool True)] \<rparr>
          \<lparr> width = None, height = None, outputPath = ''shots/home.webp'',
            gotoOptions = None,
            screenshotOptions = Some [(''quality'', JNum (Num 80))] \<rparr> = Inr r
        \<and> lookup (r_screenshotOptions r) ''path'' = Some (JStr ''shots/home.webp'')
        \<and> lookup (r_screenshotOptions r) ''type'' = Some (JStr ''webp''))"
proof -
  let ?d = "\<lparr> d_width = None, d_height = None, d_gotoOptions = None,
            d_screenshotOptions = Some [(''fullPage'', JBool True)] \<rparr>"
  let ?p = "\<lparr> width = None, height = None, outputPath = ''shots/home.webp'',
            gotoOptions = None,
            screenshotOptions = Some [(''quality'', JNum (Num 80))] \<rparr>"
  have h1: "getFormat (outputPath ?p) = Inr ''webp''"
    by (simp add: getFormat_def endsWith_def)
  have h2: "\<not> has_key (d_screenshotOptions ?d) ''path''" by simp
  have h3: "\<not> has_key (d_screenshotOptions ?d) ''type''" by simp
  have h4: "\<not> has_key (screenshotOptions ?p) ''path''" by simp
  have h5: "\<not> has_key (screenshotOptions ?p) ''type''" by simp
  from screenshot_path_type_when_absent [OF h1 h2 h3 h4 h5] h1 h2 h3 h4 h5
  show ?thesis by auto
qed

section \<open>Properties of the build-done handler\<close>

text \<open>
  C8. With an empty \<^verbatim>\<open>pages\<close> mapping the build-done handler emits exactly one
  debug-level log entry and returns: no preview server is started, no browser is
  launched, nothing else happens, whatever the environment would answer.
\<close>

theorem empty_pages_only_logs:
  "handleBuildDone fails np (snapshot (config\<lparr>c_pages := []\<rparr>)) rootDir [] =
     (Inr (), [Log Debug ''No pages configured for screenshot generation. Skipping...''])"
  by (simp add: handleBuildDone_def snapshot_def logger_def)

text \<open>
  C9. For a route key that does not start with \<^verbatim>\<open>/\<close> the navigation URL is the one of
  the key prefixed with \<^verbatim>\<open>/\<close>; both \<^verbatim>\<open>about\<close> and \<^verbatim>\<open>/about\<close> give
  \<^verbatim>\<open>http://localhost:<port>/about\<close>; every normalized path begins with \<^verbatim>\<open>/\<close>.
\<close>

theorem route_normalization:
  "(\<not> startsWith k ''/'' \<longrightarrow> pageUrl prt k = pageUrl prt (''/'' @ k))
   \<and> startsWith (normalizedPagePath k) ''/''
   \<and> pageUrl prt ''about'' = ''http://localhost:'' @ string_of_num prt @ ''/about''
   \<and> pageUrl prt ''/about'' = ''http://localhost:'' @ string_of_num prt @ ''/about''"
  by (simp add: pageUrl_def normalizedPagePath_def startsWith_def)

theorem route_normalization_witness:
  "\<not> startsWith ''about'' ''/''
   \<and> pageUrl (Num 4322) ''about'' = ''http://localhost:4322/about''
   \<and> pageUrl (Num 4322) (''/'' @ ''about'') = ''http://localhost:4322/about''"
  using route_normalization [of "''about''" "Num 4322"]
  by (simp add: startsWith_def string_of_int_def string_of_nat.simps digit_def)

text \<open>
  C10. The preview-server port is taken by nullish coalescing: a configured port of 0 is
  used as it is, as is every other configured number, and only an absent port
  (\<^verbatim>\<open>undefined\<close> or \<^verbatim>\<open>null\<close>) falls back to 4322.
\<close>

theorem port_nullish:
  "port (snapshot (config\<lparr>c_port := Defined (Num 0)\<rparr>)) = Num 0
   \<and> port (snapshot (config\<lparr>c_port := Defined p\<rparr>)) = p
   \<and> port (snapshot (config\<lparr>c_port := Undefined\<rparr>)) = Num 4322
   \<and> port (snapshot (config\<lparr>c_port := Null\<rparr>)) = Num 4322"
  by (simp add: snapshot_def)

subsection \<open>Teardown\<close>

text \<open>
  Once the \<^verbatim>\<open>try\<close> block has been entered, the run ends with the attempt to close
  the browser, followed by the attempt to stop the preview server unless closing the
  browser was rejected.
\<close>

lemma teardown_order:
  assumes "tryFinally body (andThen (call fails BrowserClose) (call fails ServerStop)) t = (r, t')"
  shows "\<exists>t0. t' = t0 @ [Failed BrowserClose]
            \<or> t' = t0 @ [Done BrowserClose, Done ServerStop]
            \<or> t' = t0 @ [Done BrowserClose, Failed ServerStop]"
proof -
  obtain r0 t1 where b: "body t = (r0, t1)" by (cases "body t")
  show ?thesis
  proof (cases "fails t1 BrowserClose")
    case True
    with assms b have "t' = t1 @ [Failed BrowserClose]"
      by (simp add: tryFinally_def andThen_def call_def)
    then show ?thesis by blast
  next
    case False
    show ?thesis
    proof (cases "fails (t1 @ [Done BrowserClose]) ServerStop")
      case True
      with assms b \<open>\<not> fails t1 BrowserClose\<close>
      have "t' = t1 @ [Done BrowserClose, Failed ServerStop]"
        by (simp add: tryFinally_def andThen_def call_def)
      then show ?thesis by blast
    next
      case False
      with assms b \<open>\<not> fails t1 BrowserClose\<close>
      have "t' = t1 @ [Done BrowserClose, Done ServerStop]"
        by (simp add: tryFinally_def andThen_def call_def)
      then show ?thesis by blast
    qed
  qed
qed

lemma build_done_teardown:
  assumes "pages st \<noteq> []"
    and "\<not> fails [] (Preview rootDir (port st))"
    and "\<not> fails [Done (Preview rootDir (port st))] (Launch (launchOptions st))"
    and "handleBuildDone fails np st rootDir [] = (r, t')"
  shows "\<exists>t0. t' = t0 @ [Failed BrowserClose]
            \<or> t' = t0 @ [Done BrowserClose, Done ServerStop]
            \<or> t' = t0 @ [Done BrowserClose, Failed ServerStop]"
proof -
  from assms have "tryFinally (capturePages fails np st rootDir (pages st))
      (andThen (call fails BrowserClose) (call fails ServerStop))
      [Done (Preview rootDir (port st)), Done (Launch (launchOptions st))] = (r, t')"
    by (simp add: handleBuildDone_def andThen_def call_def Let_def)
  then show ?thesis by (rule teardown_order)
qed

text \<open>When closing the browser is rejected, the preview server is not stopped.\<close>

lemma close_failure_skips_stop:
  "handleBuildDone browser_close_fails np (st\<lparr>pages := [(pagePath, SpecArray [])]\<rparr>) rootDir [] =
     (Inl (Rejected BrowserClose),
      [Done (Preview rootDir (port st)), Done (Launch (launchOptions st)),
       Failed BrowserClose])"
  by (simp add: handleBuildDone_def andThen_def call_def tryFinally_def ret_def Let_def)

text \<open>
  C4 says that the browser is torn down and then the preview server is stopped in all
  cases, in particular when the browser launch fails. The launch is awaited before the
  \<^verbatim>\<open>try\<close> block: when it is rejected, the run ends there, with the preview server
  started and never stopped.
\<close>

theorem launch_failure_leaks_server:
  "handleBuildDone launch_fails np (st\<lparr>pages := entry # rest\<rparr>) rootDir [] =
     (Inl (Rejected (Launch (launchOptions st))),
      [Done (Preview rootDir (port st)), Failed (Launch (launchOptions st))])"
  by (simp add: handleBuildDone_def andThen_def call_def Let_def)

text \<open>
  C5 says that a route whose value is a single capture specification is processed like
  a one-element array. The loop iterates the value with \<^verbatim>\<open>for ... of\<close>: for a single
  specification object, as in the module's usage example, the run throws a
  \<^verbatim>\<open>TypeError\<close> after the server start and the browser launch, and no capture is made.
\<close>

theorem single_object_not_iterable:
  "handleBuildDone never_fails np (st\<lparr>pages := [(pagePath, SpecObject c)]\<rparr>) rootDir [] =
     (Inl (TypeError ''screenshotConfigs is not iterable''),
      [Done (Preview rootDir (port st)), Done (Launch (launchOptions st)),
       Done BrowserClose, Done ServerStop])"
  by (simp add: handleBuildDone_def andThen_def call_def tryFinally_def throw_def never_fails_def
      Let_def)

subsection \<open>Sequential processing\<close>

text \<open>
  C6, as stated, fails in its middle part. It says that when the second specification's
  capture step throws, the second capture is never attempted. The steps of the second
  capture before \<^verbatim>\<open>page.screenshot\<close> have run by then, and the screenshot call itself
  is attempted and rejected: with the routes \<^verbatim>\<open>/\<close> and \<^verbatim>\<open>about\<close>, the run ends in
  the rejection of the second screenshot call, and its trace holds the directory
  creation, the opening of the tab, the viewport, the navigation to the second route and
  the failed screenshot call.
\<close>

theorem second_capture_attempted:
  "fst (handleBuildDone second_screenshot_fails
       \<lparr> resolve = (\<lambda>root p. root @ ''/'' @ p), dirname = (\<lambda>p. p @ ''/..''),
         relative = (\<lambda>root p. drop (Suc (length root)) p) \<rparr>
       \<lparr> pages =
           [(''/'', SpecArray [\<lparr> width = None, height = None, outputPath = ''home.png'',
              gotoOptions = None, screenshotOptions = None \<rparr>]),
            (''about'', SpecArray [\<lparr> width = None, height = None,
              outputPath = ''about.png'', gotoOptions = None, screenshotOptions = None \<rparr>])],
         defaults = no_defaults, launchOptions = [(''headless'', JBool True)],
         port = Num 4322 \<rparr>
       ''/site'' []) =
     Inl (Rejected (Screenshot
       [(''path'', JStr ''about.png''), (''type'', JStr ''png''), (''fullPage'', JBool False)]))
   \<and> drop 9 (snd (handleBuildDone second_screenshot_fails
       \<lparr> resolve = (\<lambda>root p. root @ ''/'' @ p), dirname = (\<lambda>p. p @ ''/..''),
         relative = (\<lambda>root p. drop (Suc (length root)) p) \<rparr>
       \<lparr> pages =
           [(''/'', SpecArray [\<lparr> width = None, height = None, outputPath = ''home.png'',
              gotoOptions = None, screenshotOptions = None \<rparr>]),
            (''about'', SpecArray [\<lparr> width = None, height = None,
              outputPath = ''about.png'', gotoOptions = None, screenshotOptions = None \<rparr>])],
         defaults = no_defaults, launchOptions = [(''headless'', JBool True)],
         port = Num 4322 \<rparr>
       ''/site'' [])) =
     [Done (Mkdir ''/site/about.png/..''),
      Done NewPage,
      Done (SetViewport (Num 1200) (Num 630)),
      Done (Goto ''http://localhost:4322/about'' [(''waitUntil'', JStr ''networkidle2'')]),
      Failed (Screenshot
        [(''path'', JStr ''about.png''), (''type'', JStr ''png''), (''fullPage'', JBool False)]),
      Done BrowserClose,
      Done ServerStop]"
  by (simp add: handleBuildDone_def andThen_def call_def tryFinally_def throw_def ret_def
      capture_def logger_def Let_def resolveScreenshotConfig_def getFormat_def endsWith_def
      no_defaults_def lor_def spread_opt_def pageUrl_def normalizedPagePath_def startsWith_def
      string_of_int_def string_of_nat.simps digit_def)

text \<open>
  C6, amended. Two routes with one capture specification each, both with an output path
  that the format resolver accepts; the second \<^verbatim>\<open>page.screenshot\<close> call throws and
  every other call succeeds. Then the first route's capture has been performed in full
  (its screenshot call is done and is not undone), the second capture has run up to its
  screenshot call, which is attempted and fails, no further capture step is attempted,
  and afterwards the browser is closed and the preview server is stopped. The same trace
  results when more specifications (\<open>later\<close>) or more routes (\<open>rest\<close>) follow the
  failing one: none of them is attempted.
\<close>

theorem second_capture_throws:
  assumes "getFormat (outputPath c1) = Inr fmt1" and "getFormat (outputPath c2) = Inr fmt2"
  shows "\<exists>rc1 rc2.
     resolveScreenshotConfig (defaults st) c1 = Inr rc1
   \<and> resolveScreenshotConfig (defaults st) c2 = Inr rc2
   \<and> handleBuildDone second_screenshot_fails np
       (st\<lparr>pages := (path1, SpecArray [c1]) # (path2, SpecArray (c2 # later)) # rest\<rparr>)
       rootDir [] =
     (Inl (Rejected (Screenshot (r_screenshotOptions rc2))),
      [Done (Preview rootDir (port st)),
       Done (Launch (launchOptions st)),
       Done (Mkdir (dirname np (resolve np rootDir (r_outputPath rc1)))),
       Done NewPage,
       Done (SetViewport (r_width rc1) (r_height rc1)),
       Done (Goto (pageUrl (port st) path1) (goToOptions rc1)),
       Done (Screenshot (r_screenshotOptions rc1)),
       Done PageClose,
       Log Info (generatedMessage (normalizedPagePath path1)
         (relative np rootDir (resolve np rootDir (r_outputPath rc1)))),
       Done (Mkdir (dirname np (resolve np rootDir (r_outputPath rc2)))),
       Done NewPage,
       Done (SetViewport (r_width rc2) (r_height rc2)),
       Done (Goto (pageUrl (port st) path2) (goToOptions rc2)),
       Failed (Screenshot (r_screenshotOptions rc2)),
       Done BrowserClose,
       Done ServerStop])"
proof -
  from resolve_returns [OF assms(1)] obtain rc1
    where r1: "resolveScreenshotConfig (defaults st) c1 = Inr rc1" by blast
  from resolve_returns [OF assms(2)] obtain rc2
    where r2: "resolveScreenshotConfig (defaults st) c2 = Inr rc2" by blast
  have "handleBuildDone second_screenshot_fails np
       (st\<lparr>pages := (path1, SpecArray [c1]) # (path2, SpecArray (c2 # later)) # rest\<rparr>)
       rootDir [] =
     (Inl (Rejected (Screenshot (r_screenshotOptions rc2))),
      [Done (Preview rootDir (port st)),
       Done (Launch (launchOptions st)),
       Done (Mkdir (dirname np (resolve np rootDir (r_outputPath rc1)))),
       Done NewPage,
       Done (SetViewport (r_width rc1) (r_height rc1)),
       Done (Goto (pageUrl (port st) path1) (goToOptions rc1)),
       Done (Screenshot (r_screenshotOptions rc1)),
       Done PageClose,
       Log Info (generatedMessage (normalizedPagePath path1)
         (relative np rootDir (resolve np rootDir (r_outputPath rc1)))),
       Done (Mkdir (dirname np (resolve np rootDir (r_outputPath rc2)))),
       Done NewPage,
       Done (SetViewport (r_width rc2) (r_height rc2)),
       Done (Goto (pageUrl (port st) path2) (goToOptions rc2)),
       Failed (Screenshot (r_screenshotOptions rc2)),
       Done BrowserClose,
       Done ServerStop])"
    using r1 r2
    by (simp add: handleBuildDone_def andThen_def call_def tryFinally_def throw_def ret_def
        capture_def logger_def Let_def)
  with r1 r2 show ?thesis by blast
qed

theorem second_capture_throws_witness:
  "getFormat ''home.png'' = Inr ''png'' \<and> getFormat ''og/about.jpg'' = Inr ''jpeg''
   \<and> handleBuildDone second_screenshot_fails
       \<lparr> resolve = (\<lambda>root p. root @ ''/'' @ p), dirname = (\<lambda>p. p @ ''/..''),
         relative = (\<lambda>root p. drop (Suc (length root)) p) \<rparr>
       \<lparr> pages =
           [(''/'', SpecArray [\<lparr> width = None, height = None, outputPath = ''home.png'',
              gotoOptions = None, screenshotOptions = None \<rparr>]),
            (''about'', SpecArray [\<lparr> width = Some (Num 800), height = Some (Num 0),
              outputPath = ''og/about.jpg'', gotoOptions = None, screenshotOptions = None \<rparr>])],
         defaults = no_defaults, launchOptions = [(''headless'', JBool True)],
         port = Num 4322 \<rparr>
       ''/site'' [] =
     (Inl (Rejected (Screenshot
        [(''path'', JStr ''og/about.jpg''), (''type'', JStr ''jpeg''), (''fullPage'', JBool False)])),
      [Done (Preview ''/site'' (Num 4322)),
       Done (Launch [(''headless'', JBool True)]),
       Done (Mkdir ''/site/home.png/..''),
       Done NewPage,
       Done (SetViewport (Num 1200) (Num 630)),
       Done (Goto ''http://localhost:4322/'' [(''waitUntil'', JStr ''networkidle2'')]),
       Done (Screenshot
         [(''path'', JStr ''home.png''), (''type'', JStr ''png''), (''fullPage'', JBool False)]),
       Done PageClose,
       Log Info (generatedMessage ''/'' ''home.png''),
       Done (Mkdir ''/site/og/about.jpg/..''),
       Done NewPage,
       Done (SetViewport (Num 800) (Num 630)),
       Done (Goto ''http://localhost:4322/about'' [(''waitUntil'', JStr ''networkidle2'')]),
       Failed (Screenshot
         [(''path'', JStr ''og/about.jpg''), (''type'', JStr ''jpeg''), (''fullPage'', JBool False)]),
       Done BrowserClose,
       Done ServerStop])"
proof -
  let ?c1 = "\<lparr> width = None, height = None, outputPath = ''home.png'',
              gotoOptions = None, screenshotOptions = None \<rparr>"
  let ?c2 = "\<lparr> width = Some (Num 800), height = Some (Num 0),
              outputPath = ''og/about.jpg'', gotoOptions = None, screenshotOptions = None \<rparr>"
  let ?st = "\<lparr> pages = [], defaults = no_defaults, launchOptions = [(''headless'', JBool True)],
         port = Num 4322 \<rparr>"
  let ?np = "\<lparr> resolve = (\<lambda>root p. root @ ''/'' @ p), dirname = (\<lambda>p. p @ ''/..''),
         relative = (\<lambda>root p. drop (Suc (length root)) p) \<rparr>"
  have h1: "getFormat (outputPath ?c1) = Inr ''png''"
    by (simp add: getFormat_def endsWith_def)
  have h2: "getFormat (outputPath ?c2) = Inr ''jpeg''"
    by (simp add: getFormat_def endsWith_def)
  from second_capture_throws [OF h1 h2, of ?st ?np "''/''" "''about''" "[]" "[]" "''/site''"] h1 h2
  show ?thesis
    by (auto simp: resolve_returns [OF h1] resolve_returns [OF h2] no_defaults_def lor_def
        spread_opt_def pageUrl_def normalizedPagePath_def startsWith_def string_of_int_def
        string_of_nat.simps digit_def)
qed

end
